theory Spec2Isabelle
  imports Main "HOL-Library.Sublist" "HOL-Library.AList"
begin

section \<open>JavaScript values and primitives\<close>

text \<open>
  The program is TypeScript; at run time its values are JavaScript values.  Numbers are
  modelled on the integers together with the three non-finite doubles; fractional doubles
  are outside the model.  Strings are lists of characters.  An object keeps its own
  properties in insertion order, as \<open>Object.entries\<close> lists them.
\<close>

datatype jsnum = NaN | PosInf | NegInf | Num int

datatype jsval =
    JUndefined
  | JNull
  | JBool bool
  | JNum jsnum
  | JStr string
  | JArr "jsval list"
  | JObj "(string \<times> jsval) list"

datatype js_error =
    TypeError string
  | Error string

text \<open>\<open>a ?? b\<close>\<close>

definition nullish :: "jsval \<Rightarrow> bool" where
  "nullish v = (v = JUndefined \<or> v = JNull)"

definition coalesce :: "jsval \<Rightarrow> jsval \<Rightarrow> jsval" where
  "coalesce a b = (if nullish a then b else a)"

text \<open>Truthiness, as \<open>!v\<close> and \<open>v && ...\<close> read it.\<close>

fun truthy :: "jsval \<Rightarrow> bool" where
  "truthy JUndefined = False"
| "truthy JNull = False"
| "truthy (JBool b) = b"
| "truthy (JNum n) = (n \<noteq> NaN \<and> n \<noteq> Num 0)"
| "truthy (JStr s) = (s \<noteq> [])"
| "truthy (JArr vs) = True"
| "truthy (JObj kvs) = True"

text \<open>\<open>v && typeof v === "object"\<close>: arrays and objects, never \<open>null\<close>.\<close>

fun isObject :: "jsval \<Rightarrow> bool" where
  "isObject (JArr vs) = True"
| "isObject (JObj kvs) = True"
| "isObject v = False"

text \<open>\<open>Array.prototype.join\<close> on an array of strings.\<close>

fun join_str :: "string \<Rightarrow> string list \<Rightarrow> string" where
  "join_str sep [] = []"
| "join_str sep [x] = x"
| "join_str sep (x # y # ys) = x @ sep @ join_str sep (y # ys)"

text \<open>\<open>String(n)\<close> for a number.\<close>

definition digitChar :: "nat \<Rightarrow> char" where
  "digitChar d = ''0123456789'' ! d"

function natToString :: "nat \<Rightarrow> string" where
  "natToString n = (if n < 10 then [digitChar n] else natToString (n div 10) @ [digitChar (n mod 10)])"
  by pat_completeness auto
termination
  by (relation "measure id") auto

declare natToString.simps [simp del]

definition intToString :: "int \<Rightarrow> string" where
  "intToString i = (if i < 0 then ''-'' @ natToString (nat (- i)) else natToString (nat i))"

fun numToString :: "jsnum \<Rightarrow> string" where
  "numToString NaN = ''NaN''"
| "numToString PosInf = ''Infinity''"
| "numToString NegInf = ''-Infinity''"
| "numToString (Num i) = intToString i"

text \<open>\<open>String(v)\<close> for any value; an array joins its elements with commas, writing
  nothing for \<open>null\<close> and \<open>undefined\<close>.\<close>

fun jsString :: "jsval \<Rightarrow> string" where
  "jsString JUndefined = ''undefined''"
| "jsString JNull = ''null''"
| "jsString (JBool b) = (if b then ''true'' else ''false'')"
| "jsString (JNum n) = numToString n"
| "jsString (JStr s) = s"
| "jsString (JArr vs) = join_str '','' (map (\<lambda>v. if nullish v then [] else jsString v) vs)"
| "jsString (JObj kvs) = ''[object Object]''"

text \<open>\<open>JSON.stringify\<close>: \<open>None\<close> is the \<open>undefined\<close> it returns for \<open>undefined\<close>.\<close>

definition hexDigit :: "nat \<Rightarrow> char" where
  "hexDigit d = ''0123456789abcdef'' ! d"

definition jsonQuoteChar :: "char \<Rightarrow> string" where
  \<open>jsonQuoteChar c =
     (if c = CHR ''"'' then [CHR 0x5C, CHR ''"'']
      else if c = CHR 0x5C then [CHR 0x5C, CHR 0x5C]
      else if c = CHR 0x08 then [CHR 0x5C, CHR ''b'']
      else if c = CHR 0x0C then [CHR 0x5C, CHR ''f'']
      else if c = CHR 0x0A then [CHR 0x5C, CHR ''n'']
      else if c = CHR 0x0D then [CHR 0x5C, CHR ''r'']
      else if c = CHR 0x09 then [CHR 0x5C, CHR ''t'']
      else if (of_char c :: nat) < 32
        then [CHR 0x5C, CHR ''u'', CHR ''0'', CHR ''0'',
              hexDigit ((of_char c :: nat) div 16), hexDigit ((of_char c :: nat) mod 16)]
      else [c])\<close>

definition jsonQuote :: "string \<Rightarrow> string" where
  \<open>jsonQuote s = [CHR ''"''] @ concat (map jsonQuoteChar s) @ [CHR ''"'']\<close>

fun jsonStringify :: "jsval \<Rightarrow> string option" where
  "jsonStringify JUndefined = None"
| "jsonStringify JNull = Some ''null''"
| "jsonStringify (JBool b) = Some (if b then ''true'' else ''false'')"
| "jsonStringify (JNum n) = Some (case n of Num i \<Rightarrow> intToString i | _ \<Rightarrow> ''null'')"
| "jsonStringify (JStr s) = Some (jsonQuote s)"
| "jsonStringify (JArr vs) =
     Some (''['' @ join_str '',''
       (map (\<lambda>v. case jsonStringify v of None \<Rightarrow> ''null'' | Some s \<Rightarrow> s) vs) @ '']'')"
| "jsonStringify (JObj kvs) =
     Some (''{'' @ join_str '',''
       (concat (map (\<lambda>kv. case jsonStringify (snd kv) of None \<Rightarrow> []
                            | Some s \<Rightarrow> [jsonQuote (fst kv) @ '':'' @ s]) kvs)) @ ''}'')"

section \<open>XML text utilities (utils/xml.ts)\<close>

text \<open>\<open>str.replace(/c/g, r)\<close> for a single character \<open>c\<close>.\<close>

definition replaceAll :: "char \<Rightarrow> string \<Rightarrow> string \<Rightarrow> string" where
  "replaceAll c r s = concat (map (\<lambda>x. if x = c then r else [x]) s)"

definition escapeXml :: "jsval \<Rightarrow> string" where
  \<open>escapeXml v =
     replaceAll (CHR 0x27) ''&apos;''
       (replaceAll (CHR ''"'') ''&quot;''
         (replaceAll (CHR ''>'') ''&gt;''
           (replaceAll (CHR ''<'') ''&lt;''
             (replaceAll (CHR ''&'') ''&amp;''
               (jsString (coalesce v (JStr [])))))))\<close>

definition xmlAttr :: "string \<Rightarrow> jsval \<Rightarrow> string" where
  \<open>xmlAttr name v =
     (if v = JUndefined \<or> v = JNull \<or> v = JStr [] then []
      else '' '' @ name @ ''="'' @ escapeXml v @ ''"'')\<close>

text \<open>An optional field read from an object: absent is \<open>undefined\<close>.\<close>

definition optStr :: "string option \<Rightarrow> jsval" where
  "optStr s = (case s of None \<Rightarrow> JUndefined | Some x \<Rightarrow> JStr x)"

definition optBool :: "bool option \<Rightarrow> jsval" where
  "optBool b = (case b of None \<Rightarrow> JUndefined | Some x \<Rightarrow> JBool x)"


section \<open>Protocol versions\<close>

datatype WfsVersion = V_2_0_2 | V_2_0_0 | V_1_1_0

fun versionString :: "WfsVersion \<Rightarrow> string" where
  "versionString V_2_0_2 = ''2.0.2''"
| "versionString V_2_0_0 = ''2.0.0''"
| "versionString V_1_1_0 = ''1.1.0''"

section \<open>Geometry encoding (serializers/gml.ts)\<close>

type_synonym Position = "jsnum list"

datatype Geometry =
    Point Position
  | LineString "Position list"
  | Polygon "Position list list"
  | MultiPoint "Position list"
  | MultiLineString "Position list list"
  | MultiPolygon "Position list list list"
  | GeometryCollection "Geometry list"

definition coords :: "Position \<Rightarrow> string" where
  "coords position = join_str '' '' (map numToString position)"

definition coordList :: "Position list \<Rightarrow> string" where
  "coordList positions = join_str '' '' (map (\<lambda>position. join_str '' '' (map numToString position)) positions)"

definition polygonToGml :: "Position list list \<Rightarrow> string \<Rightarrow> string \<Rightarrow> string" where
  "polygonToGml rings gmlPrefix srsAttr =
     (let outer = (case rings of [] \<Rightarrow> [] | r # _ \<Rightarrow> r);
          inners = drop 1 rings
      in ''<'' @ gmlPrefix @ '':Polygon'' @ srsAttr @ ''><'' @ gmlPrefix @ '':exterior><'' @ gmlPrefix
         @ '':LinearRing><'' @ gmlPrefix @ '':posList>'' @ coordList outer @ ''</'' @ gmlPrefix
         @ '':posList></'' @ gmlPrefix @ '':LinearRing></'' @ gmlPrefix @ '':exterior>''
         @ concat (map (\<lambda>inner. ''<'' @ gmlPrefix @ '':interior><'' @ gmlPrefix @ '':LinearRing><''
              @ gmlPrefix @ '':posList>'' @ coordList inner @ ''</'' @ gmlPrefix @ '':posList></''
              @ gmlPrefix @ '':LinearRing></'' @ gmlPrefix @ '':interior>'') inners)
         @ ''</'' @ gmlPrefix @ '':Polygon>'')"

fun geometryToGml :: "Geometry \<Rightarrow> WfsVersion \<Rightarrow> string option \<Rightarrow> string" where
  "geometryToGml (Point c) version srsName =
     ''<gml:Point'' @ xmlAttr ''srsName'' (optStr srsName) @ ''><gml:pos>'' @ coords c
       @ ''</gml:pos></gml:Point>''"
| "geometryToGml (LineString c) version srsName =
     ''<gml:LineString'' @ xmlAttr ''srsName'' (optStr srsName) @ ''><gml:posList>'' @ coordList c
       @ ''</gml:posList></gml:LineString>''"
| "geometryToGml (Polygon c) version srsName =
     polygonToGml c ''gml'' (xmlAttr ''srsName'' (optStr srsName))"
| "geometryToGml (MultiPoint c) version srsName =
     ''<gml:MultiPoint'' @ xmlAttr ''srsName'' (optStr srsName) @ ''>''
       @ concat (map (\<lambda>point. ''<gml:pointMember><gml:Point><gml:pos>'' @ coords point
                     @ ''</gml:pos></gml:Point></gml:pointMember>'') c)
       @ ''</gml:MultiPoint>''"
| "geometryToGml (MultiLineString c) version srsName =
     ''<gml:MultiLineString'' @ xmlAttr ''srsName'' (optStr srsName) @ ''>''
       @ concat (map (\<lambda>line. ''<gml:lineStringMember><gml:LineString><gml:posList>'' @ coordList line
                     @ ''</gml:posList></gml:LineString></gml:lineStringMember>'') c)
       @ ''</gml:MultiLineString>''"
| "geometryToGml (MultiPolygon c) version srsName =
     ''<gml:MultiPolygon'' @ xmlAttr ''srsName'' (optStr srsName) @ ''>''
       @ concat (map (\<lambda>polygon. ''<gml:polygonMember>'' @ polygonToGml polygon ''gml'' []
                     @ ''</gml:polygonMember>'') c)
       @ ''</gml:MultiPolygon>''"
| "geometryToGml (GeometryCollection gs) version srsName = []"

definition literalToXml :: "jsval \<Rightarrow> string" where
  "literalToXml v =
     (case v of
        JNull \<Rightarrow> []
      | JUndefined \<Rightarrow> []
      | JStr s \<Rightarrow> escapeXml v
      | JNum n \<Rightarrow> escapeXml v
      | JBool b \<Rightarrow> escapeXml v
      | _ \<Rightarrow> escapeXml (case jsonStringify v of None \<Rightarrow> JUndefined | Some s \<Rightarrow> JStr s))"


definition qNameValueReference :: "string \<Rightarrow> WfsVersion \<Rightarrow> string" where
  "qNameValueReference v version =
     (let prefix = (if version = V_1_1_0 then ''ogc'' else ''fes'');
          element = (if version = V_1_1_0 then ''PropertyName'' else ''ValueReference'')
      in ''<'' @ prefix @ '':'' @ element @ ''>'' @ escapeXml (JStr v) @ ''</'' @ prefix @ '':'' @ element @ ''>'')"

section \<open>Filter expressions (filters/types.ts)\<close>

datatype logical_op = OpAnd | OpOr | OpNot

datatype comparison_op = OpEq | OpNeq | OpLt | OpLte | OpGt | OpGte

datatype spatial_op =
  OpBbox | OpIntersects | OpWithin | OpContains | OpDisjoint | OpTouches | OpOverlaps | OpCrosses

text \<open>
  The union \<open>WfsFilter\<close>, one constructor per interface, with the fields in the order of
  the interface.  \<open>ExternalFilter tag\<close> is a value from outside the union: the object
  \<open>{op: tag}\<close> with no other field.
\<close>

datatype WfsFilter =
    LogicalFilter logical_op "WfsFilter list"
  | ComparisonFilter comparison_op string jsval "bool option"
  | LikeFilter string string "string option" "string option" "string option" "bool option"
  | BetweenFilter string jsval jsval
  | NullFilter string
  | IdFilter "string list"
  | SpatialFilter spatial_op string Geometry "string option"
  | ExternalFilter string

text \<open>Record fields carry a prefix naming their interface, since several interfaces
  share field names (\<open>version\<close>, \<open>srsName\<close>, \<open>filter\<close>).\<close>

record CompileFilterOptions =
  cf_version :: WfsVersion
  cf_srsName :: "string option"
  cf_includeNamespaceDeclarations :: "bool option"

section \<open>Filter compiler (filters/compiler.ts)\<close>

fun COMPARISON_TAG_MAP :: "comparison_op \<Rightarrow> string" where
  "COMPARISON_TAG_MAP OpEq = ''PropertyIsEqualTo''"
| "COMPARISON_TAG_MAP OpNeq = ''PropertyIsNotEqualTo''"
| "COMPARISON_TAG_MAP OpLt = ''PropertyIsLessThan''"
| "COMPARISON_TAG_MAP OpLte = ''PropertyIsLessThanOrEqualTo''"
| "COMPARISON_TAG_MAP OpGt = ''PropertyIsGreaterThan''"
| "COMPARISON_TAG_MAP OpGte = ''PropertyIsGreaterThanOrEqualTo''"

fun SPATIAL_TAG_MAP :: "spatial_op \<Rightarrow> string" where
  "SPATIAL_TAG_MAP OpBbox = ''BBOX''"
| "SPATIAL_TAG_MAP OpIntersects = ''Intersects''"
| "SPATIAL_TAG_MAP OpWithin = ''Within''"
| "SPATIAL_TAG_MAP OpContains = ''Contains''"
| "SPATIAL_TAG_MAP OpDisjoint = ''Disjoint''"
| "SPATIAL_TAG_MAP OpTouches = ''Touches''"
| "SPATIAL_TAG_MAP OpOverlaps = ''Overlaps''"
| "SPATIAL_TAG_MAP OpCrosses = ''Crosses''"

text \<open>The \<open>op\<close> strings of the union, as the \<open>switch\<close> of \<open>compileFilterBody\<close> lists them.\<close>

definition logicalOps :: "(string \<times> logical_op) list" where
  "logicalOps = [(''and'', OpAnd), (''or'', OpOr), (''not'', OpNot)]"

definition comparisonOps :: "(string \<times> comparison_op) list" where
  "comparisonOps = [(''eq'', OpEq), (''neq'', OpNeq), (''lt'', OpLt), (''lte'', OpLte),
     (''gt'', OpGt), (''gte'', OpGte)]"

definition spatialOps :: "(string \<times> spatial_op) list" where
  "spatialOps = [(''bbox'', OpBbox), (''intersects'', OpIntersects), (''within'', OpWithin),
     (''contains'', OpContains), (''disjoint'', OpDisjoint), (''touches'', OpTouches),
     (''overlaps'', OpOverlaps), (''crosses'', OpCrosses)]"


definition filterNamespaceAttrs :: "WfsVersion \<Rightarrow> string" where
  \<open>filterNamespaceAttrs v =
     (if v = V_1_1_0
      then '' xmlns:ogc="http://www.opengis.net/ogc" xmlns:gml="http://www.opengis.net/gml"''
      else '' xmlns:fes="http://www.opengis.net/fes/2.0" xmlns:gml="http://www.opengis.net/gml/3.2"'')\<close>

definition compileComparisonFilter ::
  "comparison_op \<Rightarrow> string \<Rightarrow> jsval \<Rightarrow> bool option \<Rightarrow> WfsVersion \<Rightarrow> string" where
  "compileComparisonFilter cop property val matchCase v =
     (let prefix = (if v = V_1_1_0 then ''ogc'' else ''fes'');
          tag = COMPARISON_TAG_MAP cop
      in ''<'' @ prefix @ '':'' @ tag @ xmlAttr ''matchCase'' (optBool matchCase) @ ''>''
         @ qNameValueReference property v
         @ ''<'' @ prefix @ '':Literal>'' @ literalToXml val @ ''</'' @ prefix @ '':Literal></''
         @ prefix @ '':'' @ tag @ ''>'')"

definition compileLikeFilter ::
  "string \<Rightarrow> string \<Rightarrow> string option \<Rightarrow> string option \<Rightarrow> string option \<Rightarrow> bool option
     \<Rightarrow> WfsVersion \<Rightarrow> string" where
  "compileLikeFilter property val wildCard singleChar escapeChar matchCase v =
     (let prefix = (if v = V_1_1_0 then ''ogc'' else ''fes'')
      in ''<'' @ prefix @ '':PropertyIsLike''
         @ xmlAttr ''wildCard'' (coalesce (optStr wildCard) (JStr ''*''))
         @ xmlAttr ''singleChar'' (coalesce (optStr singleChar) (JStr ''.''))
         @ xmlAttr ''escapeChar'' (coalesce (optStr escapeChar) (JStr ''!''))
         @ xmlAttr ''matchCase'' (optBool matchCase) @ ''>''
         @ qNameValueReference property v
         @ ''<'' @ prefix @ '':Literal>'' @ escapeXml (JStr val) @ ''</'' @ prefix
         @ '':Literal></'' @ prefix @ '':PropertyIsLike>'')"

definition compileBetweenFilter :: "string \<Rightarrow> jsval \<Rightarrow> jsval \<Rightarrow> WfsVersion \<Rightarrow> string" where
  "compileBetweenFilter property lower upper v =
     (let prefix = (if v = V_1_1_0 then ''ogc'' else ''fes'')
      in ''<'' @ prefix @ '':PropertyIsBetween>'' @ qNameValueReference property v
         @ ''<'' @ prefix @ '':LowerBoundary><'' @ prefix @ '':Literal>'' @ literalToXml lower
         @ ''</'' @ prefix @ '':Literal></'' @ prefix @ '':LowerBoundary><'' @ prefix
         @ '':UpperBoundary><'' @ prefix @ '':Literal>'' @ literalToXml upper
         @ ''</'' @ prefix @ '':Literal></'' @ prefix @ '':UpperBoundary></'' @ prefix
         @ '':PropertyIsBetween>'')"

definition compileNullFilter :: "string \<Rightarrow> WfsVersion \<Rightarrow> string" where
  "compileNullFilter property v =
     (let prefix = (if v = V_1_1_0 then ''ogc'' else ''fes'')
      in ''<'' @ prefix @ '':PropertyIsNull>'' @ qNameValueReference property v
         @ ''</'' @ prefix @ '':PropertyIsNull>'')"

definition compileIdFilter :: "string list \<Rightarrow> WfsVersion \<Rightarrow> string" where
  \<open>compileIdFilter ids v =
     (if v = V_1_1_0
      then concat (map (\<lambda>id. ''<ogc:FeatureId fid="'' @ escapeXml (JStr id) @ ''"/>'') ids)
      else concat (map (\<lambda>id. ''<fes:ResourceId rid="'' @ escapeXml (JStr id) @ ''"/>'') ids))\<close>

text \<open>\<open>a < b\<close> on numbers: every comparison with \<open>NaN\<close> is false.\<close>

fun js_lt :: "jsnum \<Rightarrow> jsnum \<Rightarrow> bool" where
  "js_lt NaN b = False"
| "js_lt a NaN = False"
| "js_lt PosInf b = False"
| "js_lt a PosInf = True"
| "js_lt NegInf NegInf = False"
| "js_lt NegInf b = True"
| "js_lt (Num i) NegInf = False"
| "js_lt (Num i) (Num j) = (i < j)"

text \<open>
  \<open>collect\<close> of \<open>geometryBounds\<close>, at each nesting depth of the coordinate arrays.  An
  array of at least two entries whose first two are numbers is a position; anything
  else is descended into, and a number is no array.
\<close>

definition collectPosition :: "Position \<Rightarrow> Position list" where
  "collectPosition c = (if length c \<ge> 2 then [c] else [])"

definition collectPositions1 :: "Position list \<Rightarrow> Position list" where
  "collectPositions1 c = concat (map collectPosition c)"

definition collectPositions2 :: "Position list list \<Rightarrow> Position list" where
  "collectPositions2 c = concat (map collectPositions1 c)"

definition collectPositions3 :: "Position list list list \<Rightarrow> Position list" where
  "collectPositions3 c = concat (map collectPositions2 c)"

fun boundsStep :: "jsnum \<times> jsnum \<times> jsnum \<times> jsnum \<Rightarrow> Position \<Rightarrow> jsnum \<times> jsnum \<times> jsnum \<times> jsnum" where
  "boundsStep (minX, minY, maxX, maxY) (x # y # rest) =
     (if js_lt x minX then x else minX,
      if js_lt y minY then y else minY,
      if js_lt maxX x then x else maxX,
      if js_lt maxY y then y else maxY)"
| "boundsStep b position = b"

definition geometryBounds :: "Geometry \<Rightarrow> jsnum \<times> jsnum \<times> jsnum \<times> jsnum" where
  "geometryBounds geometry =
     (let positions =
        (case geometry of
           Point c \<Rightarrow> collectPosition c
         | LineString c \<Rightarrow> collectPositions1 c
         | Polygon c \<Rightarrow> collectPositions2 c
         | MultiPoint c \<Rightarrow> collectPositions1 c
         | MultiLineString c \<Rightarrow> collectPositions2 c
         | MultiPolygon c \<Rightarrow> collectPositions3 c
         | GeometryCollection gs \<Rightarrow> [])
      in if length positions = 0 then (Num 0, Num 0, Num 0, Num 0)
         else foldl boundsStep (PosInf, PosInf, NegInf, NegInf) positions)"

definition compileSpatialFilter ::
  "spatial_op \<Rightarrow> string \<Rightarrow> Geometry \<Rightarrow> string option \<Rightarrow> CompileFilterOptions \<Rightarrow> string" where
  "compileSpatialFilter sop property geometry srs options =
     (let prefix = (if cf_version options = V_1_1_0 then ''ogc'' else ''fes'');
          tag = SPATIAL_TAG_MAP sop;
          srs' = (case srs of None \<Rightarrow> cf_srsName options | Some s \<Rightarrow> Some s)
      in if sop = OpBbox
         then (case geometryBounds geometry of (b0, b1, b2, b3) \<Rightarrow>
                 ''<'' @ prefix @ '':'' @ tag @ ''>'' @ qNameValueReference property (cf_version options)
                 @ ''<gml:Envelope'' @ xmlAttr ''srsName'' (optStr srs') @ ''><gml:lowerCorner>''
                 @ numToString b0 @ '' '' @ numToString b1 @ ''</gml:lowerCorner><gml:upperCorner>''
                 @ numToString b2 @ '' '' @ numToString b3
                 @ ''</gml:upperCorner></gml:Envelope></'' @ prefix @ '':'' @ tag @ ''>'')
         else ''<'' @ prefix @ '':'' @ tag @ ''>'' @ qNameValueReference property (cf_version options)
              @ geometryToGml geometry (cf_version options) srs'
              @ ''</'' @ prefix @ '':'' @ tag @ ''>'')"

text \<open>Results of a \<open>map\<close> whose callback may throw: the first exception ends the map.\<close>

fun collectResults :: "('e + 'a) list \<Rightarrow> 'e + 'a list" where
  "collectResults [] = Inr []"
| "collectResults (Inl e # rs) = Inl e"
| "collectResults (Inr x # rs) = (case collectResults rs of Inl e \<Rightarrow> Inl e | Inr xs \<Rightarrow> Inr (x # xs))"

text \<open>
  \<open>compileFilterBody\<close> with the bodies of \<open>compileLogicalFilter\<close> in place.  On a value
  \<open>{op: tag}\<close> from outside the union the \<open>switch\<close> takes the branch of the tag: a
  logical, id or spatial tag reads \<open>filters\<close>, \<open>ids\<close> or \<open>geometry.type\<close> of
  \<open>undefined\<close>, a TypeError; the other known tags compile with every field
  \<open>undefined\<close>, which \<open>escapeXml\<close> writes as the empty string; any other tag is the
  \<open>default\<close> branch.
\<close>

fun compileFilterBody :: "WfsFilter \<Rightarrow> CompileFilterOptions \<Rightarrow> js_error + string" where
  "compileFilterBody (LogicalFilter lop filters) options =
     (let prefix = (if cf_version options = V_1_1_0 then ''ogc'' else ''fes'')
      in if lop = OpNot
         then (case filters of
                 [] \<Rightarrow> Inr []
               | first # rest \<Rightarrow>
                   (case compileFilterBody first options of
                      Inl e \<Rightarrow> Inl e
                    | Inr body \<Rightarrow> Inr (''<'' @ prefix @ '':Not>'' @ body @ ''</'' @ prefix @ '':Not>'')))
         else (let tag = (if lop = OpAnd then ''And'' else ''Or'')
               in case collectResults (map (\<lambda>f. compileFilterBody f options) filters) of
                    Inl e \<Rightarrow> Inl e
                  | Inr bodies \<Rightarrow>
                      Inr (''<'' @ prefix @ '':'' @ tag @ ''>'' @ concat bodies
                           @ ''</'' @ prefix @ '':'' @ tag @ ''>'')))"
| "compileFilterBody (ComparisonFilter cop property val matchCase) options =
     Inr (compileComparisonFilter cop property val matchCase (cf_version options))"
| "compileFilterBody (LikeFilter property val wildCard singleChar escapeChar matchCase) options =
     Inr (compileLikeFilter property val wildCard singleChar escapeChar matchCase (cf_version options))"
| "compileFilterBody (BetweenFilter property lower upper) options =
     Inr (compileBetweenFilter property lower upper (cf_version options))"
| "compileFilterBody (NullFilter property) options =
     Inr (compileNullFilter property (cf_version options))"
| "compileFilterBody (IdFilter ids) options =
     Inr (compileIdFilter ids (cf_version options))"
| "compileFilterBody (SpatialFilter sop property geometry srs) options =
     Inr (compileSpatialFilter sop property geometry srs options)"
| "compileFilterBody (ExternalFilter tag) options =
     (if tag \<in> set (map fst logicalOps) then Inl (TypeError ''filters'')
      else case map_of comparisonOps tag of
        Some cop \<Rightarrow> Inr (compileComparisonFilter cop [] JUndefined None (cf_version options))
      | None \<Rightarrow>
         if tag = ''like'' then Inr (compileLikeFilter [] [] None None None None (cf_version options))
         else if tag = ''between'' then Inr (compileBetweenFilter [] JUndefined JUndefined (cf_version options))
         else if tag = ''isNull'' then Inr (compileNullFilter [] (cf_version options))
         else if tag = ''id'' then Inl (TypeError ''ids'')
         else if tag \<in> set (map fst spatialOps) then Inl (TypeError ''geometry'')
         else Inr [])"

definition compileFilterXml :: "WfsFilter \<Rightarrow> CompileFilterOptions \<Rightarrow> js_error + string" where
  "compileFilterXml f options =
     (let prefix = (if cf_version options = V_1_1_0 then ''ogc'' else ''fes'');
          nsAttrs = (if cf_includeNamespaceDeclarations options = Some True
                     then filterNamespaceAttrs (cf_version options) else [])
      in case compileFilterBody f options of
           Inl e \<Rightarrow> Inl e
         | Inr body \<Rightarrow> Inr (''<'' @ prefix @ '':Filter'' @ nsAttrs @ ''>'' @ body
                             @ ''</'' @ prefix @ '':Filter>''))"

section \<open>The XML tree of the parser (parsers/helpers.ts)\<close>

text \<open>
  \<open>parseXml\<close> is the external XML parser: it turns a document into a tree of objects,
  with an attribute \<open>a\<close> under the key \<open>@_a\<close>, the text of a mixed element under
  \<open>#text\<close>, and a repeated element as an array.  The functions below take the parsed
  tree or the parser itself as an argument.
\<close>

text \<open>\<open>Object.entries\<close>: the own properties of an object in order, the indices of an
  array or of a string.  The keys of an object are distinct.\<close>

fun entries :: "jsval \<Rightarrow> (string \<times> jsval) list" where
  "entries (JObj kvs) = kvs"
| "entries (JArr vs) = zip (map natToString [0..<length vs]) vs"
| "entries (JStr s) = zip (map natToString [0..<length s]) (map (\<lambda>c. JStr [c]) s)"
| "entries v = []"

text \<open>\<open>record[key]\<close>: \<open>undefined\<close> when the property is missing.\<close>

definition getProp :: "jsval \<Rightarrow> string \<Rightarrow> jsval" where
  "getProp v k = (case map_of (entries v) k of None \<Rightarrow> JUndefined | Some x \<Rightarrow> x)"

definition asArray :: "jsval \<Rightarrow> jsval list" where
  "asArray v = (if v = JUndefined \<or> v = JNull then [] else case v of JArr xs \<Rightarrow> xs | _ \<Rightarrow> [v])"

definition startsWith :: "string \<Rightarrow> string \<Rightarrow> bool" where
  "startsWith s p = prefix p s"

definition localName :: "string \<Rightarrow> string" where
  "localName name = (if CHR '':'' \<in> set name then tl (dropWhile (\<lambda>c. c \<noteq> CHR '':'') name) else name)"

text \<open>A loop over a list that returns at the first iteration producing a value.\<close>

fun firstDefined :: "('a \<Rightarrow> 'b option) \<Rightarrow> 'a list \<Rightarrow> 'b option" where
  "firstDefined f [] = None"
| "firstDefined f (x # xs) = (case f x of Some y \<Rightarrow> Some y | None \<Rightarrow> firstDefined f xs)"

lemma firstDefined_cong [fundef_cong]:
  "xs = ys \<Longrightarrow> (\<And>x. x \<in> set ys \<Longrightarrow> f x = g x) \<Longrightarrow> firstDefined f xs = firstDefined g ys"
  by (induction ys arbitrary: xs) (auto split: option.splits)

lemma size_entries:
  "isObject v \<Longrightarrow> (k, x) \<in> set (entries v) \<Longrightarrow> size x < size v"
proof (cases v)
  case (JArr vs)
  assume "(k, x) \<in> set (entries v)"
  with JArr have "x \<in> set vs" by (auto dest: set_zip_rightD)
  then have "size x \<le> size_list size vs" by (simp add: size_list_estimation')
  with JArr show ?thesis by simp
next
  case (JObj kvs)
  assume "(k, x) \<in> set (entries v)"
  with JObj have m: "(k, x) \<in> set kvs" by simp
  have "size x < Suc (size_list (size_prod (\<lambda>_. 0) size) kvs)"
    using m by (induction kvs) auto
  with JObj show ?thesis by simp
qed simp_all

function getNodeByLocalName :: "jsval \<Rightarrow> string \<Rightarrow> jsval option" where
  "getNodeByLocalName root expected =
     (if \<not> isObject root then None
      else firstDefined
        (\<lambda>kv. if localName (fst kv) = expected \<and> isObject (snd kv) then Some (snd kv)
              else if isObject (snd kv) then getNodeByLocalName (snd kv) expected
              else None)
        (entries root))"
  by pat_completeness auto
termination
  by (relation "measure (\<lambda>(root, expected). size root)") (auto dest: size_entries)

declare getNodeByLocalName.simps [simp del]

function collectNodesByLocalName :: "jsval \<Rightarrow> string \<Rightarrow> jsval list" where
  "collectNodesByLocalName root expected =
     (if \<not> isObject root then []
      else concat (map
        (\<lambda>kv. (if localName (fst kv) = expected then filter isObject (asArray (snd kv)) else [])
              @ (if isObject (snd kv) then collectNodesByLocalName (snd kv) expected else []))
        (entries root)))"
  by pat_completeness auto
termination
  by (relation "measure (\<lambda>(root, expected). size root)") (auto dest: size_entries)

declare collectNodesByLocalName.simps [simp del]

function valueText :: "jsval \<Rightarrow> string option" where
  "valueText node =
     (if node = JNull \<or> node = JUndefined then None
      else if \<not> isObject node then Some (jsString node)
      else if \<not> nullish (getProp node ''#text'') then Some (jsString (getProp node ''#text''))
      else firstDefined
        (\<lambda>kv. if startsWith (fst kv) ''@_'' then None else valueText (snd kv))
        (entries node))"
  by pat_completeness auto
termination
  by (relation "measure size") (auto dest: size_entries)

declare valueText.simps [simp del]

function collectTextValuesByLocalName :: "jsval \<Rightarrow> string \<Rightarrow> string list" where
  "collectTextValuesByLocalName root expected =
     (if \<not> isObject root then []
      else concat (map
        (\<lambda>kv. (if localName (fst kv) = expected
               then concat (map (\<lambda>item. case valueText item of None \<Rightarrow> [] | Some t \<Rightarrow> [t])
                              (asArray (snd kv)))
               else [])
              @ (if isObject (snd kv) then collectTextValuesByLocalName (snd kv) expected else []))
        (entries root)))"
  by pat_completeness auto
termination
  by (relation "measure (\<lambda>(root, expected). size root)") (auto dest: size_entries)

declare collectTextValuesByLocalName.simps [simp del]

text \<open>
  Whitespace, as \<open>trim\<close> and the class \<open>\s\<close> read it, on the ASCII range of the model's
  characters.
\<close>

definition isSpace :: "char \<Rightarrow> bool" where
  "isSpace c = (c \<in> set [CHR '' '', CHR 0x09, CHR 0x0A, CHR 0x0B, CHR 0x0C, CHR 0x0D])"

definition trimEnd :: "string \<Rightarrow> string" where
  "trimEnd s = rev (dropWhile isSpace (rev s))"

definition trim :: "string \<Rightarrow> string" where
  "trim s = trimEnd (dropWhile isSpace s)"



text \<open>
  \<open>Number(text)\<close>: surrounding whitespace is dropped, the empty string is 0, a decimal
  integer literal with an optional sign is its value, \<open>Infinity\<close> with an optional sign is
  infinite, and any other text is \<open>NaN\<close>.  (Fractions, exponents and radix prefixes, which
  \<open>Number\<close> also reads, are outside the model's numbers.)
\<close>

definition decimalDigits :: string where
  "decimalDigits = ''0123456789''"

definition isDigit :: "char \<Rightarrow> bool" where
  "isDigit c = (c \<in> set decimalDigits)"

definition digitValue :: "char \<Rightarrow> int" where
  "digitValue c = int (of_char c) - 48"

definition digitsValue :: "string \<Rightarrow> int" where
  "digitsValue ds = foldl (\<lambda>a c. 10 * a + digitValue c) 0 ds"

definition jsNumber :: "string \<Rightarrow> jsnum" where
  "jsNumber text' =
     (let t = trim text' in
      if t = [] then Num 0
      else if t = ''Infinity'' \<or> t = ''+Infinity'' then PosInf
      else if t = ''-Infinity'' then NegInf
      else if list_all isDigit t then Num (digitsValue t)
      else case t of
        c # ds \<Rightarrow>
          if ds \<noteq> [] \<and> list_all isDigit ds \<and> c = CHR ''+'' then Num (digitsValue ds)
          else if ds \<noteq> [] \<and> list_all isDigit ds \<and> c = CHR ''-'' then Num (- digitsValue ds)
          else NaN
      | [] \<Rightarrow> NaN)"









section \<open>Feature collections (parsers/featureCollection.ts)\<close>

text \<open>A loop whose body may throw: it ends at the first exception or the first value.\<close>

fun firstDefinedE :: "('a \<Rightarrow> 'e + 'b option) \<Rightarrow> 'a list \<Rightarrow> 'e + 'b option" where
  "firstDefinedE f [] = Inr None"
| "firstDefinedE f (x # xs) =
     (case f x of Inl e \<Rightarrow> Inl e | Inr (Some y) \<Rightarrow> Inr (Some y) | Inr None \<Rightarrow> firstDefinedE f xs)"

lemma firstDefinedE_cong [fundef_cong]:
  "xs = ys \<Longrightarrow> (\<And>x. x \<in> set ys \<Longrightarrow> f x = g x) \<Longrightarrow> firstDefinedE f xs = firstDefinedE g ys"
  by (induction ys arbitrary: xs) (auto split: option.splits sum.splits)




definition isFinite :: "jsnum \<Rightarrow> bool" where
  "isFinite n = (case n of Num i \<Rightarrow> True | _ \<Rightarrow> False)"

































section \<open>Raw XML overrides (utils/xml.ts)\<close>

datatype OverridePosition = Before | After | Replace

record XmlOverride =
  xo_target :: string
  xo_position :: "OverridePosition option"
  xo_xml :: string







section \<open>Operation options (types.ts)\<close>

datatype RequestStyle = GET | POST

record RawRequestOptions =
  rr_kvp :: "(string \<times> string) list option"
  rr_xmlOverrides :: "XmlOverride list option"
  rr_headers :: "(string \<times> string) list option"

record GeoServerOptions =
  gs_cqlFilter :: "string option"
  gs_viewParams :: "string option"
  gs_formatOptions :: "string option"
  gs_vendorParams :: "(string \<times> string) list option"
  gs_xmlHints :: "string list option"

text \<open>
  \<open>GetFeatureOptions\<close>, with the fields of the interfaces it extends.  \<open>resolveDepth\<close> is
  a number or the string \<open>*\<close>, kept as a value, \<open>undefined\<close> when absent.
\<close>

record GetFeatureOptions =
  gf_version :: "WfsVersion option"
  gf_requestStyle :: "RequestStyle option"
  gf_outputFormat :: "string option"
  gf_raw :: "RawRequestOptions option"
  gf_startIndex :: "jsnum option"
  gf_count :: "jsnum option"
  gf_resultType :: "string option"
  gf_resolve :: "string option"
  gf_resolveDepth :: jsval
  gf_resolveTimeout :: "jsnum option"
  gf_typeNames :: "string list"
  gf_srsName :: "string option"
  gf_propertyNames :: "string list option"
  gf_filter :: "WfsFilter option"
  gf_bbox :: "(jsnum \<times> jsnum \<times> jsnum \<times> jsnum) option"
  gf_geoserver :: "GeoServerOptions option"

section \<open>Query parameters (operations/kvp.ts)\<close>

text \<open>
  A \<open>Record<string, string>\<close> under construction is the list of its entries in
  insertion order; an assignment replaces the value of a key in place or adds the key
  at the end.
\<close>

text \<open>\<open>Object.assign(params, source)\<close>\<close>

definition objectAssign :: "(string \<times> string) list \<Rightarrow> (string \<times> string) list \<Rightarrow> (string \<times> string) list" where
  "objectAssign params source = foldl (\<lambda>p kv. AList.update (fst kv) (snd kv) p) params source"

definition buildGetFilter :: "WfsFilter option \<Rightarrow> WfsVersion \<Rightarrow> js_error + string option" where
  "buildGetFilter f v =
     (case f of
        None \<Rightarrow> Inr None
      | Some flt \<Rightarrow>
          (case compileFilterXml flt
                  \<lparr>cf_version = v, cf_srsName = None, cf_includeNamespaceDeclarations = Some True\<rparr> of
             Inl e \<Rightarrow> Inl e
           | Inr x \<Rightarrow> Inr (Some x)))"

text \<open>\<open>if (value) params[key] = value\<close>, for an optional string.\<close>

definition assignIfTruthy :: "string \<Rightarrow> string option \<Rightarrow> (string \<times> string) list \<Rightarrow> (string \<times> string) list" where
  "assignIfTruthy k s params =
     (case s of None \<Rightarrow> params | Some x \<Rightarrow> if x \<noteq> [] then AList.update k x params else params)"

text \<open>\<open>if (typeof value === "number") params[key] = String(value)\<close>\<close>

definition assignIfNumber :: "string \<Rightarrow> jsnum option \<Rightarrow> (string \<times> string) list \<Rightarrow> (string \<times> string) list" where
  "assignIfNumber k n params =
     (case n of None \<Rightarrow> params | Some x \<Rightarrow> AList.update k (numToString x) params)"

definition applyGeoServerParams ::
  "(string \<times> string) list \<Rightarrow> GeoServerOptions option \<Rightarrow> (string \<times> string) list" where
  "applyGeoServerParams params geoserver =
     (case geoserver of
        None \<Rightarrow> params
      | Some g \<Rightarrow>
          (let p1 = assignIfTruthy ''cql_filter'' (gs_cqlFilter g) params;
               p2 = assignIfTruthy ''viewParams'' (gs_viewParams g) p1;
               p3 = assignIfTruthy ''format_options'' (gs_formatOptions g) p2
           in case gs_vendorParams g of
                None \<Rightarrow> p3
              | Some vp \<Rightarrow> objectAssign p3 vp))"

text \<open>The parameters of \<open>buildGetFeatureKvp\<close> before the filter is compiled.\<close>

definition getFeatureKvpHead :: "GetFeatureOptions \<Rightarrow> WfsVersion \<Rightarrow> (string \<times> string) list" where
  "getFeatureKvpHead options v =
     (let typeParamName = (if v = V_1_1_0 then ''typeName'' else ''typeNames'');
          p0 = AList.update typeParamName (join_str '','' (gf_typeNames options))
                 [(''service'', ''WFS''), (''version'', versionString v), (''request'', ''GetFeature'')];
          p1 = assignIfTruthy ''outputFormat'' (gf_outputFormat options) p0;
          p2 = assignIfTruthy ''srsName'' (gf_srsName options) p1;
          p3 = (case gf_propertyNames options of
                  None \<Rightarrow> p2
                | Some ns \<Rightarrow> if length ns \<noteq> 0
                            then AList.update ''propertyName'' (join_str '','' ns) p2 else p2);
          p4 = assignIfNumber ''startIndex'' (gf_startIndex options) p3;
          p5 = (if v = V_1_1_0
                then assignIfNumber ''maxFeatures'' (gf_count options) p4
                else assignIfNumber ''count'' (gf_count options) p4)
      in assignIfTruthy ''resultType'' (gf_resultType options) p5)"

text \<open>The parameters added after the filter, up to the vendor and raw parameters.\<close>

definition getFeatureKvpTail :: "GetFeatureOptions \<Rightarrow> (string \<times> string) list \<Rightarrow> (string \<times> string) list" where
  "getFeatureKvpTail options p7 =
     (let p8 = (case gf_bbox options of
                  None \<Rightarrow> p7
                | Some (b0, b1, b2, b3) \<Rightarrow>
                    AList.update ''bbox''
                      (join_str '','' (map numToString [b0, b1, b2, b3])
                       @ (case gf_srsName options of
                            None \<Rightarrow> []
                          | Some srs \<Rightarrow> if srs \<noteq> [] then '','' @ srs else []))
                      p7);
          p9 = assignIfTruthy ''resolve'' (gf_resolve options) p8;
          p10 = (if gf_resolveDepth options \<noteq> JUndefined
                 then AList.update ''resolveDepth'' (jsString (gf_resolveDepth options)) p9 else p9);
          p11 = assignIfNumber ''resolveTimeout'' (gf_resolveTimeout options) p10;
          p12 = applyGeoServerParams p11 (gf_geoserver options)
      in objectAssign p12
           (case gf_raw options of
              None \<Rightarrow> []
            | Some r \<Rightarrow> (case rr_kvp r of None \<Rightarrow> [] | Some kvp \<Rightarrow> kvp)))"

definition buildGetFeatureKvp :: "GetFeatureOptions \<Rightarrow> WfsVersion \<Rightarrow> js_error + (string \<times> string) list" where
  "buildGetFeatureKvp options v =
     (case buildGetFilter (gf_filter options) v of
        Inl e \<Rightarrow> Inl e
      | Inr flt \<Rightarrow>
          Inr (getFeatureKvpTail options
                 (assignIfTruthy ''filter'' flt (getFeatureKvpHead options v))))"

text \<open>The keys a caller supplies through \<open>geoserver.vendorParams\<close> and through \<open>raw.kvp\<close>.\<close>

definition vendorKeys :: "GeoServerOptions option \<Rightarrow> string list" where
  "vendorKeys g =
     (case g of None \<Rightarrow> []
      | Some gs \<Rightarrow> (case gs_vendorParams gs of None \<Rightarrow> [] | Some vp \<Rightarrow> map fst vp))"

definition rawKeys :: "RawRequestOptions option \<Rightarrow> string list" where
  "rawKeys raw =
     (case raw of None \<Rightarrow> []
      | Some r \<Rightarrow> (case rr_kvp r of None \<Rightarrow> [] | Some kvp \<Rightarrow> map fst kvp))"

text \<open>The options of the repository's query-parameter test, with a count: two type names
  and nothing else.\<close>

definition kvpTestOptions :: GetFeatureOptions where
  "kvpTestOptions =
     \<lparr>gf_version = None, gf_requestStyle = None, gf_outputFormat = None, gf_raw = None,
      gf_startIndex = None, gf_count = Some (Num 5), gf_resultType = None, gf_resolve = None,
      gf_resolveDepth = JUndefined, gf_resolveTimeout = None,
      gf_typeNames = [''topp:roads'', ''infra:bridges''],
      gf_srsName = None, gf_propertyNames = None, gf_filter = None, gf_bbox = None,
      gf_geoserver = None\<rparr>"

section \<open>Transaction results (parsers/transaction.ts)\<close>

text \<open>
  The attribute values of the tree are cast to \<open>string | undefined\<close> without a check;
  they are kept as the values they are.
\<close>

record ActionResult =
  ar_handle :: jsval
  ar_resourceIds :: "jsval list"

record TransactionResult =
  tr_totalInserted :: "jsnum option"
  tr_totalUpdated :: "jsnum option"
  tr_totalReplaced :: "jsnum option"
  tr_totalDeleted :: "jsnum option"
  tr_insertResults :: "ActionResult list"
  tr_updateResults :: "ActionResult list"
  tr_replaceResults :: "ActionResult list"
  tr_raw :: jsval

text \<open>\<open>asArray(v)[0]\<close>\<close>

definition firstOf :: "jsval \<Rightarrow> jsval" where
  "firstOf v = (case asArray v of [] \<Rightarrow> JUndefined | x # _ \<Rightarrow> x)"

definition toNumber :: "string option \<Rightarrow> jsnum option" where
  "toNumber v =
     (case v of
        None \<Rightarrow> None
      | Some s \<Rightarrow> if s = [] then None
                 else if isFinite (jsNumber s) then Some (jsNumber s) else None)"

definition firstByLocalName :: "jsval option \<Rightarrow> string \<Rightarrow> string option" where
  "firstByLocalName node name =
     (case node of
        None \<Rightarrow> None
      | Some n \<Rightarrow> valueText (coalesce (firstOf (getProp n (''wfs:'' @ name))) (firstOf (getProp n name))))"

definition parseActionResults :: "jsval \<Rightarrow> string \<Rightarrow> ActionResult list" where
  "parseActionResults txNode localResultName =
     (case getNodeByLocalName txNode localResultName of
        None \<Rightarrow> []
      | Some node \<Rightarrow>
          map (\<lambda>featureNode.
                 \<lparr>ar_handle = getProp featureNode ''@_handle'',
                  ar_resourceIds =
                    filter truthy
                      (map (\<lambda>resourceIdNode. coalesce (getProp resourceIdNode ''@_rid'')
                                                       (getProp resourceIdNode ''@_fid''))
                           (collectNodesByLocalName featureNode ''ResourceId''))\<rparr>)
              (collectNodesByLocalName node ''Feature''))"

definition parseTransactionResult ::
  "(string \<Rightarrow> js_error + jsval) \<Rightarrow> jsval \<Rightarrow> js_error + TransactionResult" where
  "parseTransactionResult parseXml payload =
     (case payload of
        JStr s \<Rightarrow>
          (case parseXml s of
             Inl e \<Rightarrow> Inl e
           | Inr parsed \<Rightarrow>
               (case getNodeByLocalName parsed ''TransactionResponse'' of
                  None \<Rightarrow>
                    Inr \<lparr>tr_totalInserted = None, tr_totalUpdated = None, tr_totalReplaced = None,
                         tr_totalDeleted = None, tr_insertResults = [], tr_updateResults = [],
                         tr_replaceResults = [], tr_raw = parsed\<rparr>
                | Some txNode \<Rightarrow>
                    let summaryNode = getNodeByLocalName txNode ''TransactionSummary''
                    in Inr \<lparr>tr_totalInserted = toNumber (firstByLocalName summaryNode ''totalInserted''),
                            tr_totalUpdated = toNumber (firstByLocalName summaryNode ''totalUpdated''),
                            tr_totalReplaced = toNumber (firstByLocalName summaryNode ''totalReplaced''),
                            tr_totalDeleted = toNumber (firstByLocalName summaryNode ''totalDeleted''),
                            tr_insertResults = parseActionResults txNode ''InsertResults'',
                            tr_updateResults = parseActionResults txNode ''UpdateResults'',
                            tr_replaceResults = parseActionResults txNode ''ReplaceResults'',
                            tr_raw = parsed\<rparr>))
      | _ \<Rightarrow>
          Inr \<lparr>tr_totalInserted = None, tr_totalUpdated = None, tr_totalReplaced = None,
               tr_totalDeleted = None, tr_insertResults = [], tr_updateResults = [],
               tr_replaceResults = [], tr_raw = payload\<rparr>)"

section \<open>Lock results (parsers/lock.ts)\<close>

record LockResult =
  lr_lockId :: jsval
  lr_lockedResourceIds :: "jsval list"
  lr_notLockedResourceIds :: "jsval list"
  lr_raw :: jsval

definition collectResourceIds :: "jsval \<Rightarrow> string \<Rightarrow> jsval list" where
  "collectResourceIds lockNode localName' =
     (case getNodeByLocalName lockNode localName' of
        None \<Rightarrow> []
      | Some resultNode \<Rightarrow>
          (let resourceIds =
                 filter truthy
                   (map (\<lambda>node. coalesce (getProp node ''@_rid'') (getProp node ''@_fid''))
                        (collectNodesByLocalName resultNode ''ResourceId''));
               featureIds =
                 filter truthy
                   (map (\<lambda>node. coalesce (getProp node ''@_fid'') (getProp node ''@_id''))
                        (collectNodesByLocalName resultNode ''FeatureId''))
           in resourceIds @ featureIds))"

definition parseLockResult :: "(string \<Rightarrow> js_error + jsval) \<Rightarrow> jsval \<Rightarrow> js_error + LockResult" where
  "parseLockResult parseXml payload =
     (case payload of
        JStr s \<Rightarrow>
          (case parseXml s of
             Inl e \<Rightarrow> Inl e
           | Inr parsed \<Rightarrow>
               (case getNodeByLocalName parsed ''LockFeatureResponse'' of
                  None \<Rightarrow>
                    Inr \<lparr>lr_lockId = JUndefined, lr_lockedResourceIds = [],
                         lr_notLockedResourceIds = [], lr_raw = parsed\<rparr>
                | Some lockNode \<Rightarrow>
                    Inr \<lparr>lr_lockId =
                           coalesce (getProp lockNode ''@_lockId'')
                             (coalesce (getProp lockNode ''@_lockid'')
                                (case collectTextValuesByLocalName lockNode ''LockId'' of
                                   [] \<Rightarrow> JUndefined
                                 | t # _ \<Rightarrow> JStr t)),
                         lr_lockedResourceIds = collectResourceIds lockNode ''FeaturesLocked'',
                         lr_notLockedResourceIds = collectResourceIds lockNode ''FeaturesNotLocked'',
                         lr_raw = parsed\<rparr>))
      | _ \<Rightarrow>
          Inr \<lparr>lr_lockId = JUndefined, lr_lockedResourceIds = [], lr_notLockedResourceIds = [],
               lr_raw = payload\<rparr>)"

text \<open>
  The parsed tree of a WFS 1.1.0 transaction response with one inserted feature:
  \<open><wfs:TransactionResponse><wfs:TransactionSummary><wfs:totalInserted>1</wfs:totalInserted>
  </wfs:TransactionSummary><wfs:InsertResults><wfs:Feature><ogc:FeatureId fid="x"/>
  </wfs:Feature></wfs:InsertResults></wfs:TransactionResponse>\<close>,
  and of a lock response naming the same identifier.
\<close>

definition insertResponse110 :: jsval where
  "insertResponse110 =
     JObj [(''wfs:TransactionResponse'',
       JObj [(''wfs:TransactionSummary'', JObj [(''wfs:totalInserted'', JNum (Num 1))]),
             (''wfs:InsertResults'',
                JObj [(''wfs:Feature'', JObj [(''ogc:FeatureId'', JObj [(''@_fid'', JStr ''x'')])])])])]"

definition lockResponse110 :: jsval where
  "lockResponse110 =
     JObj [(''wfs:LockFeatureResponse'',
       JObj [(''wfs:LockId'', JStr ''lock-1''),
             (''wfs:FeaturesLocked'', JObj [(''ogc:FeatureId'', JObj [(''@_fid'', JStr ''x'')])])])]"


section \<open>Namespace prefixes of a request (serializers/wfs.ts)\<close>






















section \<open>The GetFeature document (serializers/wfs.ts)\<close>










section \<open>OWS exceptions (errors.ts, parsers/owsException.ts)\<close>









section \<open>The client (client/WfsClient.ts)\<close>




datatype VersionStrategy = Auto | FixedVersion WfsVersion



































section \<open>Verified properties\<close>

subsection \<open>Filter compiler\<close>

text \<open>
  Claim C3.  An id filter compiles, at version 1.1.0, to the \<open>ogc:Filter\<close> wrapper around
  exactly one \<open>ogc:FeatureId\<close> element per identifier, in the order of the list, and at
  versions 2.0.2 and 2.0.0 to the \<open>fes:Filter\<close> wrapper around exactly one
  \<open>fes:ResourceId\<close> element per identifier; nothing else is in the body.  For the single
  identifier \<open>roads.1\<close> the two documents are written out.
\<close>

theorem compileFilterXml_id_filter:
  \<open>compileFilterXml (IdFilter ids) (options\<lparr>cf_version := V_1_1_0\<rparr>) =
     Inr (''<ogc:Filter''
          @ (if cf_includeNamespaceDeclarations options = Some True then filterNamespaceAttrs V_1_1_0 else [])
          @ ''>'' @ concat (map (\<lambda>id. ''<ogc:FeatureId fid="'' @ escapeXml (JStr id) @ ''"/>'') ids)
          @ ''</ogc:Filter>'')
   \<and> compileFilterXml (IdFilter ids) (options\<lparr>cf_version := V_2_0_2\<rparr>) =
     Inr (''<fes:Filter''
          @ (if cf_includeNamespaceDeclarations options = Some True then filterNamespaceAttrs V_2_0_2 else [])
          @ ''>'' @ concat (map (\<lambda>id. ''<fes:ResourceId rid="'' @ escapeXml (JStr id) @ ''"/>'') ids)
          @ ''</fes:Filter>'')
   \<and> compileFilterXml (IdFilter ids) (options\<lparr>cf_version := V_2_0_0\<rparr>) =
     Inr (''<fes:Filter''
          @ (if cf_includeNamespaceDeclarations options = Some True then filterNamespaceAttrs V_2_0_0 else [])
          @ ''>'' @ concat (map (\<lambda>id. ''<fes:ResourceId rid="'' @ escapeXml (JStr id) @ ''"/>'') ids)
          @ ''</fes:Filter>'')
   \<and> compileFilterXml (IdFilter [''roads.1''])
         \<lparr>cf_version = V_1_1_0, cf_srsName = None, cf_includeNamespaceDeclarations = None\<rparr>
       = Inr ''<ogc:Filter><ogc:FeatureId fid="roads.1"/></ogc:Filter>''
   \<and> compileFilterXml (IdFilter [''roads.1''])
         \<lparr>cf_version = V_2_0_2, cf_srsName = None, cf_includeNamespaceDeclarations = None\<rparr>
       = Inr ''<fes:Filter><fes:ResourceId rid="roads.1"/></fes:Filter>''\<close>
  by (simp add: compileFilterXml_def compileIdFilter_def escapeXml_def replaceAll_def coalesce_def nullish_def)



subsection \<open>Axis order\<close>















subsection \<open>Raw XML overrides\<close>










subsection \<open>Query parameters of GetFeature\<close>

lemma map_of_update_other: "k \<noteq> k' \<Longrightarrow> map_of (AList.update k v al) k' = map_of al k'"
  by (simp add: update_conv')

lemma map_of_update_same: "map_of (AList.update k v al) k = Some v"
  by (simp add: update_conv')

lemma objectAssign_other:
  "k \<notin> fst ` set src \<Longrightarrow> map_of (objectAssign p src) k = map_of p k"
  unfolding objectAssign_def
  by (induction src arbitrary: p) (auto simp: map_of_update_other)

lemma assignIfTruthy_other: "k \<noteq> k' \<Longrightarrow> map_of (assignIfTruthy k s p) k' = map_of p k'"
  by (simp add: assignIfTruthy_def map_of_update_other split: option.split)

lemma assignIfNumber_other: "k \<noteq> k' \<Longrightarrow> map_of (assignIfNumber k n p) k' = map_of p k'"
  by (simp add: assignIfNumber_def map_of_update_other split: option.split)

lemma assignIfNumber_same: "map_of p k = None \<Longrightarrow> map_of (assignIfNumber k n p) k = map_option numToString n"
  by (simp add: assignIfNumber_def map_of_update_same split: option.split)

lemma applyGeoServerParams_other:
  assumes "k \<notin> set [''cql_filter'', ''viewParams'', ''format_options'']"
    and "k \<notin> set (vendorKeys g)"
  shows "map_of (applyGeoServerParams p g) k = map_of p k"
proof (cases g)
  case None
  then show ?thesis by (simp add: applyGeoServerParams_def)
next
  case (Some gs)
  from assms(1) have k: "''cql_filter'' \<noteq> k" "''viewParams'' \<noteq> k" "''format_options'' \<noteq> k"
    by auto
  show ?thesis
  proof (cases "gs_vendorParams gs")
    case None
    with Some k show ?thesis
      by (simp add: applyGeoServerParams_def Let_def assignIfTruthy_other)
  next
    case (Some vp)
    with \<open>g = Some gs\<close> assms(2) have "k \<notin> fst ` set vp" by (simp add: vendorKeys_def)
    with Some \<open>g = Some gs\<close> k show ?thesis
      by (simp add: applyGeoServerParams_def Let_def assignIfTruthy_other objectAssign_other)
  qed
qed

lemma getFeatureKvpTail_other:
  assumes "k \<notin> set [''bbox'', ''resolve'', ''resolveDepth'', ''resolveTimeout'',
                      ''cql_filter'', ''viewParams'', ''format_options'']"
    and "k \<notin> set (vendorKeys (gf_geoserver options))"
    and "k \<notin> set (rawKeys (gf_raw options))"
  shows "map_of (getFeatureKvpTail options p) k = map_of p k"
proof -
  from assms(1) have k: "''bbox'' \<noteq> k" "''resolve'' \<noteq> k" "''resolveDepth'' \<noteq> k" "''resolveTimeout'' \<noteq> k"
    and g: "k \<notin> set [''cql_filter'', ''viewParams'', ''format_options'']"
    by auto
  have r: "k \<notin> fst ` set (case gf_raw options of None \<Rightarrow> []
             | Some r \<Rightarrow> (case rr_kvp r of None \<Rightarrow> [] | Some kvp \<Rightarrow> kvp))"
    using assms(3) by (auto simp: rawKeys_def split: option.splits)
  show ?thesis
    unfolding getFeatureKvpTail_def Let_def
    by (simp add: objectAssign_other [OF r] applyGeoServerParams_other [OF g assms(2)]
          assignIfTruthy_other assignIfNumber_other map_of_update_other k
          split: option.split prod.split)
qed

lemma getFeatureKvpHead_110:
  "map_of (getFeatureKvpHead options V_1_1_0) ''count'' = None"
  "map_of (getFeatureKvpHead options V_1_1_0) ''typeName'' = Some (join_str '','' (gf_typeNames options))"
  "map_of (getFeatureKvpHead options V_1_1_0) ''typeNames'' = None"
  "map_of (getFeatureKvpHead options V_1_1_0) ''maxFeatures'' = map_option numToString (gf_count options)"
  unfolding getFeatureKvpHead_def Let_def
  by (simp_all add: assignIfTruthy_other assignIfNumber_other assignIfNumber_same
        map_of_update_other map_of_update_same split: option.split)

lemma getFeatureKvpHead_20:
  assumes "v \<noteq> V_1_1_0"
  shows "map_of (getFeatureKvpHead options v) ''maxFeatures'' = None"
  "map_of (getFeatureKvpHead options v) ''typeNames'' = Some (join_str '','' (gf_typeNames options))"
  "map_of (getFeatureKvpHead options v) ''typeName'' = None"
  "map_of (getFeatureKvpHead options v) ''count'' = map_option numToString (gf_count options)"
  using assms unfolding getFeatureKvpHead_def Let_def
  by (simp_all add: assignIfTruthy_other assignIfNumber_other assignIfNumber_same
        map_of_update_other map_of_update_same split: option.split)

lemma num5: "intToString 5 = ''5''"
  by (simp add: intToString_def natToString.simps digitChar_def)

text \<open>
  Claim C4, as the code has it.  The vendor parameters and the raw parameters of the
  caller are copied into the result last, under whatever keys they carry.  For a key they
  do not supply: under version 1.1.0 the type names stand, joined by commas, under
  \<open>typeName\<close>, no \<open>count\<close> is emitted, and a numeric count stands under
  \<open>maxFeatures\<close>; under version 2.0.2 the type names stand under \<open>typeNames\<close>, no
  \<open>maxFeatures\<close> is emitted, and a numeric count stands under \<open>count\<close>.
\<close>

theorem buildGetFeatureKvp_version_keys:
  "(buildGetFeatureKvp options V_1_1_0 = Inr params \<longrightarrow>
      (''count'' \<notin> set (vendorKeys (gf_geoserver options) @ rawKeys (gf_raw options)) \<longrightarrow>
         map_of params ''count'' = None)
    \<and> (''typeName'' \<notin> set (vendorKeys (gf_geoserver options) @ rawKeys (gf_raw options)) \<longrightarrow>
         map_of params ''typeName'' = Some (join_str '','' (gf_typeNames options)))
    \<and> (''maxFeatures'' \<notin> set (vendorKeys (gf_geoserver options) @ rawKeys (gf_raw options)) \<longrightarrow>
         map_of params ''maxFeatures'' = map_option numToString (gf_count options)))
   \<and> (buildGetFeatureKvp options V_2_0_2 = Inr params' \<longrightarrow>
      (''maxFeatures'' \<notin> set (vendorKeys (gf_geoserver options) @ rawKeys (gf_raw options)) \<longrightarrow>
         map_of params' ''maxFeatures'' = None)
    \<and> (''typeNames'' \<notin> set (vendorKeys (gf_geoserver options) @ rawKeys (gf_raw options)) \<longrightarrow>
         map_of params' ''typeNames'' = Some (join_str '','' (gf_typeNames options)))
    \<and> (''count'' \<notin> set (vendorKeys (gf_geoserver options) @ rawKeys (gf_raw options)) \<longrightarrow>
         map_of params' ''count'' = map_option numToString (gf_count options)))"
proof -
  have t: "\<And>k p. k \<in> set [''count'', ''typeName'', ''typeNames'', ''maxFeatures''] \<Longrightarrow>
      k \<notin> set (vendorKeys (gf_geoserver options) @ rawKeys (gf_raw options)) \<Longrightarrow>
      map_of (getFeatureKvpTail options p) k = map_of p k"
    by (rule getFeatureKvpTail_other) auto
  have f: "\<And>k flt p. k \<in> set [''count'', ''typeName'', ''typeNames'', ''maxFeatures''] \<Longrightarrow>
      map_of (assignIfTruthy ''filter'' flt p) k = map_of p k"
    by (rule assignIfTruthy_other) auto
  have v: "V_2_0_2 \<noteq> V_1_1_0" by simp
  show ?thesis
    by (auto simp: buildGetFeatureKvp_def t f getFeatureKvpHead_110 getFeatureKvpHead_20 [OF v]
          simp del: set_append split: sum.splits)
qed

text \<open>The options of the repository's test, at both versions.\<close>

theorem buildGetFeatureKvp_version_keys_witness:
  "buildGetFeatureKvp kvpTestOptions V_1_1_0 =
     Inr [(''service'', ''WFS''), (''version'', ''1.1.0''), (''request'', ''GetFeature''),
          (''typeName'', ''topp:roads,infra:bridges''), (''maxFeatures'', ''5'')]
   \<and> ''count'' \<notin> set (vendorKeys (gf_geoserver kvpTestOptions) @ rawKeys (gf_raw kvpTestOptions))
   \<and> map_of [(''service'', ''WFS''), (''version'', ''1.1.0''), (''request'', ''GetFeature''),
          (''typeName'', ''topp:roads,infra:bridges''), (''maxFeatures'', ''5'')] ''count'' = None
   \<and> buildGetFeatureKvp kvpTestOptions V_2_0_2 =
     Inr [(''service'', ''WFS''), (''version'', ''2.0.2''), (''request'', ''GetFeature''),
          (''typeNames'', ''topp:roads,infra:bridges''), (''count'', ''5'')]
   \<and> ''maxFeatures'' \<notin> set (vendorKeys (gf_geoserver kvpTestOptions) @ rawKeys (gf_raw kvpTestOptions))
   \<and> map_of [(''service'', ''WFS''), (''version'', ''2.0.2''), (''request'', ''GetFeature''),
          (''typeNames'', ''topp:roads,infra:bridges''), (''count'', ''5'')] ''maxFeatures'' = None"
proof -
  have a: "buildGetFeatureKvp kvpTestOptions V_1_1_0 =
     Inr [(''service'', ''WFS''), (''version'', ''1.1.0''), (''request'', ''GetFeature''),
          (''typeName'', ''topp:roads,infra:bridges''), (''maxFeatures'', ''5'')]"
    by (simp add: buildGetFeatureKvp_def buildGetFilter_def getFeatureKvpHead_def getFeatureKvpTail_def
          kvpTestOptions_def assignIfTruthy_def assignIfNumber_def applyGeoServerParams_def
          objectAssign_def num5)
  have b: "buildGetFeatureKvp kvpTestOptions V_2_0_2 =
     Inr [(''service'', ''WFS''), (''version'', ''2.0.2''), (''request'', ''GetFeature''),
          (''typeNames'', ''topp:roads,infra:bridges''), (''count'', ''5'')]"
    by (simp add: buildGetFeatureKvp_def buildGetFilter_def getFeatureKvpHead_def getFeatureKvpTail_def
          kvpTestOptions_def assignIfTruthy_def assignIfNumber_def applyGeoServerParams_def
          objectAssign_def num5)
  have k: "set (vendorKeys (gf_geoserver kvpTestOptions) @ rawKeys (gf_raw kvpTestOptions)) = {}"
    by (simp add: vendorKeys_def rawKeys_def kvpTestOptions_def)
  show ?thesis
    using a b k buildGetFeatureKvp_version_keys [of kvpTestOptions
        "[(''service'', ''WFS''), (''version'', ''1.1.0''), (''request'', ''GetFeature''),
          (''typeName'', ''topp:roads,infra:bridges''), (''maxFeatures'', ''5'')]"
        "[(''service'', ''WFS''), (''version'', ''2.0.2''), (''request'', ''GetFeature''),
          (''typeNames'', ''topp:roads,infra:bridges''), (''count'', ''5'')]"]
    by simp
qed

text \<open>
  Claim C4, as stated for every options value, fails: with the raw parameter
  \<open>count=7\<close> the result at version 1.1.0 has a \<open>count\<close> parameter.
\<close>

theorem buildGetFeatureKvp_raw_count_counterexample:
  "buildGetFeatureKvp
     (kvpTestOptions\<lparr>gf_raw := Some \<lparr>rr_kvp = Some [(''count'', ''7'')], rr_xmlOverrides = None,
                                        rr_headers = None\<rparr>\<rparr>) V_1_1_0 =
     Inr [(''service'', ''WFS''), (''version'', ''1.1.0''), (''request'', ''GetFeature''),
          (''typeName'', ''topp:roads,infra:bridges''), (''maxFeatures'', ''5''), (''count'', ''7'')]
   \<and> map_of [(''service'', ''WFS''), (''version'', ''1.1.0''), (''request'', ''GetFeature''),
          (''typeName'', ''topp:roads,infra:bridges''), (''maxFeatures'', ''5''), (''count'', ''7'')]
        ''count'' = Some ''7''"
  by (simp add: buildGetFeatureKvp_def buildGetFilter_def getFeatureKvpHead_def getFeatureKvpTail_def
        kvpTestOptions_def assignIfTruthy_def assignIfNumber_def applyGeoServerParams_def
        objectAssign_def num5)

subsection \<open>Transaction totals\<close>














subsection \<open>Identifiers of inserted features\<close>

text \<open>
  Claim C7.  On a WFS 1.1.0 transaction response whose inserted feature is identified by
  \<open><ogc:FeatureId fid="x"/>\<close>, the action result of \<open>parseTransactionResult\<close> has an
  empty identifier list: \<open>parseActionResults\<close> collects \<open>ResourceId\<close> nodes only.  On
  the same identifier element, \<open>parseLockResult\<close> returns the identifier \<open>x\<close>.
\<close>

theorem parseTransactionResult_feature_id_not_collected:
  "map_sum id tr_insertResults (parseTransactionResult (\<lambda>s. Inr insertResponse110) (JStr ''payload'')) =
     Inr [\<lparr>ar_handle = JUndefined, ar_resourceIds = []\<rparr>]
   \<and> map_sum id lr_lockedResourceIds (parseLockResult (\<lambda>s. Inr lockResponse110) (JStr ''payload'')) =
     Inr [JStr ''x'']"
  by code_simp

subsection \<open>Early returns of the feature-collection parser\<close>




subsection \<open>Missing namespace mappings\<close>











subsection \<open>The retry of GetFeature without an output format\<close>

















end
